theory Spec2Isabelle
  imports Complex_Main
begin

section \<open>Numbers and settings\<close>

text \<open>
  For the animation, JavaScript numbers are modelled as exact reals: rounding, NaN and
  the infinities are not part of that model. The one place of \<^verbatim>\<open>smooth-scroll.js\<close>
  where an infinity arises in ordinary use (a division by a zero duration) is written out
  where it happens. The easing function is also modelled in double arithmetic, further
  down, for the properties of the function itself. A variable that may still be
  \<^verbatim>\<open>undefined\<close> is a \<open>real option\<close>.
\<close>

text \<open>
  \<^verbatim>\<open>a || b\<close> for a number-or-undefined \<open>a\<close>: \<^verbatim>\<open>undefined\<close> and \<open>0\<close> are falsy.
\<close>

definition js_or :: "real option \<Rightarrow> real \<Rightarrow> real" where
  "js_or a b = (case a of None \<Rightarrow> b | Some x \<Rightarrow> if x = 0 then b else x)"

text \<open>
  \<^verbatim>\<open>var settings = { speed: 4000, easing: 'easeInOutCubic', offset: 1/20 }\<close>: a
  private variable of the module that is never assigned again. \<^verbatim>\<open>parseInt\<close> of the
  integer speed and \<^verbatim>\<open>parseFloat\<close> of the offset return the number itself.
\<close>

record settings_rec =
  speed :: int
  easing :: string
  offset :: real

definition settings :: settings_rec where
  "settings = \<lparr>speed = 4000, easing = ''easeInOutCubic'', offset = 1 / 20\<rparr>"

section \<open>The easing pattern\<close>

text \<open>
  \<^verbatim>\<open>easingPattern(type, time)\<close>: \<open>pattern\<close> stays undefined unless the type is
  \<^verbatim>\<open>'easeInOutCubic'\<close>; the result is \<^verbatim>\<open>pattern || time\<close>.
\<close>

definition easingPattern :: "string \<Rightarrow> real \<Rightarrow> real" where
  "easingPattern type time =
     (let pattern =
        (if type = ''easeInOutCubic''
         then Some (if time < 0.5 then 4 * time * time * time
                    else (time - 1) * (2 * time - 2) * (2 * time - 2) + 1)
         else None)
      in js_or pattern time)"

section \<open>The easing pattern in double arithmetic\<close>

text \<open>
  The numbers of the program are binary64 doubles. For the properties of the easing
  function itself the arithmetic is modelled as it is carried out: every result of
  \<^verbatim>\<open>*\<close>, \<^verbatim>\<open>-\<close> and \<^verbatim>\<open>+\<close> is rounded to the nearest double, ties to the even
  significand, with a unit in the last place of \<^verbatim>\<open>2^(e-52)\<close> for a value in
  \<^verbatim>\<open>[2^e, 2^(e+1))\<close> and of \<^verbatim>\<open>2^-1074\<close> below \<^verbatim>\<open>2^-1022\<close> (the subnormal
  range, where small products underflow to 0). Results beyond the largest double, NaN and
  the sign of zero are not modelled; none of them arises for a time in the unit interval.
\<close>

definition round_half_even :: "real \<Rightarrow> int" where
  "round_half_even q =
     (let f = \<lfloor>q\<rfloor>
      in if q - of_int f < 1 / 2 then f
         else if q - of_int f > 1 / 2 then f + 1
         else if even f then f else f + 1)"

text \<open>The exponent of the unit in the last place of a positive number.\<close>

definition ulp_exponent :: "real \<Rightarrow> int" where
  "ulp_exponent x = max \<lfloor>log 2 x\<rfloor> (- 1022) - 52"

definition round64_pos :: "real \<Rightarrow> real" where
  "round64_pos x =
     real_of_int (round_half_even (x / 2 powr of_int (ulp_exponent x)))
       * 2 powr of_int (ulp_exponent x)"

definition round64 :: "real \<Rightarrow> real" where
  "round64 x = (if x = 0 then 0 else if x < 0 then - round64_pos (- x) else round64_pos x)"




section \<open>Elements and geometry\<close>

text \<open>
  A DOM element, as far as the module reads it. The chain of offset parents is finite,
  as it is in a document.
\<close>

datatype element =
  Element (offsetTop: real) (offsetParent: "element option")
    (scrollHeight: real) (offsetHeight: real) (clientHeight: real)

text \<open>\<^verbatim>\<open>getHeight(elem)\<close>\<close>

definition getHeight :: "element \<Rightarrow> real" where
  "getHeight elem = max (max (scrollHeight elem) (offsetHeight elem)) (clientHeight elem)"

text \<open>
  The \<^verbatim>\<open>do { location += anchor.offsetTop; anchor = anchor.offsetParent; } while (anchor)\<close>
  loop of \<^verbatim>\<open>getEndLocation\<close>: the body runs once before the test.
\<close>

fun getEndLocation_loop :: "element \<Rightarrow> real \<Rightarrow> real" where
  "getEndLocation_loop (Element ot None sh oh ch) location = location + ot"
| "getEndLocation_loop (Element ot (Some parent) sh oh ch) location =
     getEndLocation_loop parent (location + ot)"

definition getEndLocation :: "element \<Rightarrow> real" where
  "getEndLocation anchor =
     (let location = (if offsetParent anchor \<noteq> None then getEndLocation_loop anchor 0 else 0)
      in if location \<ge> 0 then location else 0)"

text \<open>
  The words of the specification for \<^verbatim>\<open>endLocation\<close>: the element followed by its
  chain of offset parents, and the sum of the offset-top values along it.
\<close>

fun offsetChain :: "element \<Rightarrow> element list" where
  "offsetChain (Element ot None sh oh ch) = [Element ot None sh oh ch]"
| "offsetChain (Element ot (Some parent) sh oh ch) =
     Element ot (Some parent) sh oh ch # offsetChain parent"

definition chainOffset :: "element \<Rightarrow> real" where
  "chainOffset e = sum_list (map offsetTop (offsetChain e))"

section \<open>The browser\<close>

text \<open>
  The completion callback. The only one the module ever passes on is the function of
  \<^verbatim>\<open>handler\<close> that sets a timeout of 300 ms to dispatch a click on the linked element.
\<close>

datatype callback = TriggerClick element

text \<open>
  What the module reads from and does to its host: the window (\<^verbatim>\<open>root\<close>), the six
  heights of the document, element lookup, the timers, the history, the event being
  handled, and logs of the calls made (latest first).
\<close>

record browser =
  pageYOffset :: real
  innerHeight :: real
  body_scrollHeight :: real
  documentElement_scrollHeight :: real
  body_offsetHeight :: real
  documentElement_offsetHeight :: real
  body_clientHeight :: real
  documentElement_clientHeight :: real
  elements :: "string \<Rightarrow> element option"
  intervals :: "nat list"
  nextTimer :: nat
  timeouts :: "(nat \<times> element) list"
  scrollLog :: "int list"
  focusLog :: "element list"
  callbackCalls :: nat
  defaultPrevented :: bool
  pushStateSupported :: bool
  historyEntries :: "string list"
  location_protocol :: string
  location_host :: string
  location_pathname :: string
  location_search :: string

text \<open>
  The offset the window reports after \<^verbatim>\<open>root.scrollTo(0, y)\<close> is the browser's
  business (it clamps to the scrollable range); it is a parameter of the model.
\<close>

type_synonym view = "browser \<Rightarrow> int \<Rightarrow> real"

definition root_scrollTo :: "view \<Rightarrow> int \<Rightarrow> browser \<Rightarrow> browser" where
  "root_scrollTo view y b = b\<lparr>pageYOffset := view b y, scrollLog := y # scrollLog b\<rparr>"

definition setInterval :: "browser \<Rightarrow> nat \<times> browser" where
  "setInterval b =
     (nextTimer b, b\<lparr>intervals := nextTimer b # intervals b, nextTimer := Suc (nextTimer b)\<rparr>)"

definition clearInterval :: "nat option \<Rightarrow> browser \<Rightarrow> browser" where
  "clearInterval h b =
     (case h of None \<Rightarrow> b | Some i \<Rightarrow> b\<lparr>intervals := removeAll i (intervals b)\<rparr>)"

definition focus :: "element \<Rightarrow> browser \<Rightarrow> browser" where
  "focus e b = b\<lparr>focusLog := e # focusLog b\<rparr>"

text \<open>\<^verbatim>\<open>if (callback) callback();\<close>\<close>

definition invoke :: "callback option \<Rightarrow> browser \<Rightarrow> browser" where
  "invoke cb b =
     (case cb of
        None \<Rightarrow> b
      | Some (TriggerClick e) \<Rightarrow>
          b\<lparr>callbackCalls := Suc (callbackCalls b), timeouts := (300, e) # timeouts b\<rparr>)"

definition preventDefault :: "browser \<Rightarrow> browser" where
  "preventDefault b = b\<lparr>defaultPrevented := True\<rparr>"

text \<open>\<^verbatim>\<open>getDocumentHeight()\<close>\<close>

definition getDocumentHeight :: "browser \<Rightarrow> real" where
  "getDocumentHeight b =
     Max {body_scrollHeight b, documentElement_scrollHeight b,
          body_offsetHeight b, documentElement_offsetHeight b,
          body_clientHeight b, documentElement_clientHeight b}"

section \<open>The scroll animation\<close>

text \<open>
  The variables of one call of \<^verbatim>\<open>scrollTo(destination, callback)\<close>, shared by its
  inner functions. \<open>percentage\<close>, \<open>position\<close> and \<open>acceleration\<close> are assigned by every
  tick before they are read; they start as 0 here.
\<close>

record run =
  destination :: element
  callback :: "callback option"
  startLocation :: real
  documentHeight :: real
  viewportHeight :: real
  endLocation :: real
  height :: real
  distance :: real
  animationInterval :: "nat option"
  timeLapsed :: real
  percentage :: real
  position :: real
  acceleration :: real
  timeToAnimate :: real

text \<open>\<^verbatim>\<open>stopAnimateScroll(position, endLocation, animationInterval)\<close>\<close>

definition stopAnimateScroll :: "real \<Rightarrow> real \<Rightarrow> nat option \<Rightarrow> run \<Rightarrow> browser \<Rightarrow> browser" where
  "stopAnimateScroll pos endLoc h r b =
     (let currentLocation = pageYOffset b
      in if pos = endLoc \<or> currentLocation = endLoc \<or>
            (innerHeight b + currentLocation \<ge> documentHeight r \<or> pos < 0)
         then invoke (callback r) (focus (destination r) (clearInterval h b))
         else b)"

text \<open>
  \<^verbatim>\<open>loopAnimateScroll()\<close>. \<open>timeLapsed\<close> is positive when the quotient is taken, so
  with a duration of 0 the quotient is \<^verbatim>\<open>Infinity\<close>, which is above 1 and becomes 1.
\<close>

definition loopAnimateScroll :: "view \<Rightarrow> run \<times> browser \<Rightarrow> run \<times> browser" where
  "loopAnimateScroll view s =
     (let r = fst s; b = snd s;
          lapsed = timeLapsed r + 16;
          pct = (if timeToAnimate r = 0 then 1
                 else if lapsed / timeToAnimate r > 1 then 1 else lapsed / timeToAnimate r);
          acc0 = easingPattern (easing settings) pct;
          acc = (if acc0 < 0 then acc0 * (- 1) else acc0);
          pos = startLocation r + distance r * acc;
          r' = r\<lparr>timeLapsed := lapsed, percentage := pct, position := pos, acceleration := acc\<rparr>;
          b' = root_scrollTo view \<lfloor>pos\<rfloor> b
      in (r', stopAnimateScroll pos (endLocation r) (animationInterval r) r' b'))"

text \<open>
  \<^verbatim>\<open>scrollTo(destination, callback)\<close>: read the geometry, reset the position when the
  page is at the top, start the interval timer.
\<close>

definition scrollTo :: "view \<Rightarrow> element \<Rightarrow> callback option \<Rightarrow> browser \<Rightarrow> run \<times> browser" where
  "scrollTo view dest cb b =
     (let start = pageYOffset b;
          docHeight = getDocumentHeight b;
          vpHeight = max (documentElement_clientHeight b) (js_or (Some (innerHeight b)) 0);
          endLoc = getEndLocation dest - vpHeight * offset settings;
          dist = endLoc - start;
          b1 = (if pageYOffset b = 0 then root_scrollTo view 0 b else b);
          tb = setInterval b1
      in (\<lparr>destination = dest, callback = cb, startLocation = start,
            documentHeight = docHeight, viewportHeight = vpHeight, endLocation = endLoc,
            height = getHeight dest, distance = dist, animationInterval = Some (fst tb),
            timeLapsed = 0, percentage = 0, position = 0, acceleration = 0,
            timeToAnimate = dist / real_of_int (speed settings) * 1000\<rparr>,
          snd tb))"

text \<open>
  The interval timer calls \<^verbatim>\<open>loopAnimateScroll\<close> every 16 ms for as long as its handle
  has not been cleared; \<open>ticks n\<close> is the state after the \<open>n\<close>-th time the timer was due.
\<close>

definition tick :: "view \<Rightarrow> run \<times> browser \<Rightarrow> run \<times> browser" where
  "tick view s =
     (case animationInterval (fst s) of
        None \<Rightarrow> s
      | Some i \<Rightarrow> if i \<in> set (intervals (snd s)) then loopAnimateScroll view s else s)"

fun ticks :: "view \<Rightarrow> nat \<Rightarrow> run \<times> browser \<Rightarrow> run \<times> browser" where
  "ticks view 0 s = s"
| "ticks view (Suc n) s = tick view (ticks view n s)"

text \<open>
  The termination condition in the words of the specification, with the viewport height
  that \<^verbatim>\<open>scrollTo\<close> computed when it was called.
\<close>

definition spec_termination :: "run \<Rightarrow> real \<Rightarrow> real \<Rightarrow> bool" where
  "spec_termination r pos currentLiveOffset =
     (pos = endLocation r \<or> currentLiveOffset = endLocation r \<or>
      viewportHeight r + currentLiveOffset \<ge> documentHeight r \<or> pos < 0)"

section \<open>The click handler\<close>

text \<open>
  The anchor that was clicked: its \<^verbatim>\<open>href\<close> attribute (\<^verbatim>\<open>null\<close> when absent) and
  its \<^verbatim>\<open>data-smooth-scroll\<close> attribute (\<^verbatim>\<open>undefined\<close> when absent).
\<close>

record anchor =
  href :: "string option"
  smoothScroll :: "string option"

text \<open>The second argument of \<^verbatim>\<open>updateUrl\<close>, a boolean or a string, and its truthiness.\<close>

datatype jsval = JBool bool | JString string

fun truthy :: "jsval \<Rightarrow> bool" where
  "truthy (JBool v) = v"
| "truthy (JString v) = (v \<noteq> [])"

text \<open>
  \<^verbatim>\<open>updateUrl(anchor, url)\<close>: the pushed address is the protocol, \<^verbatim>\<open>//\<close>, the host,
  the path and the search of the current location, joined in front of the anchor.
\<close>

definition updateUrl :: "string \<Rightarrow> jsval \<Rightarrow> browser \<Rightarrow> browser" where
  "updateUrl a url b =
     (if pushStateSupported b \<and> (truthy url \<or> url = JString ''true'')
      then b\<lparr>historyEntries :=
               concat [location_protocol b, ''//'', location_host b, location_pathname b,
                       location_search b, a] # historyEntries b\<rparr>
      else b)"

text \<open>
  \<^verbatim>\<open>handler(e)\<close>, called on the clicked anchor. The result is the run that was started,
  if any, and the browser afterwards.
\<close>

definition handler :: "view \<Rightarrow> anchor \<Rightarrow> browser \<Rightarrow> run option \<times> browser" where
  "handler view this b =
     (case href this of
        None \<Rightarrow> (None, b)
      | Some h \<Rightarrow>
          if h \<noteq> [] \<and> take 1 h = ''#'' \<and> smoothScroll this \<noteq> Some ''ignore''
          then (case elements b (drop 1 h) of
                  None \<Rightarrow> (None, b)
                | Some linkedElement \<Rightarrow>
                    (let b1 = preventDefault b;
                         s = (if smoothScroll this = Some ''click''
                              then scrollTo view linkedElement (Some (TriggerClick linkedElement)) b1
                              else scrollTo view linkedElement None b1)
                     in (Some (fst s), updateUrl h (JBool False) (snd s))))
          else (None, b))"

section \<open>Auxiliary notions\<close>

text \<open>
  The position that a tick computes when the elapsed time has become \<open>lapsed\<close>: the
  arithmetic of \<^verbatim>\<open>loopAnimateScroll\<close> as a function of the elapsed time.
\<close>

definition position_at :: "run \<Rightarrow> real \<Rightarrow> real" where
  "position_at r lapsed =
     (let pct = (if timeToAnimate r = 0 then 1
                 else if lapsed / timeToAnimate r > 1 then 1 else lapsed / timeToAnimate r);
          acc0 = easingPattern (easing settings) pct
      in startLocation r + distance r * (if acc0 < 0 then acc0 * (- 1) else acc0))"

text \<open>
  Concrete pages for evaluating the model: a body at the top of the document, a target
  element inside it, a window that follows every scroll request within the scrollable
  range, and a page with a given scroll offset, window height, client height of the
  root element and document height.
\<close>

definition demo_body :: element where
  "demo_body = Element 0 None 10000 10000 10000"

definition demo_target :: "real \<Rightarrow> element" where
  "demo_target y = Element y (Some demo_body) 40 40 40"

definition demo_view :: view where
  "demo_view b y = max 0 (min (real_of_int y) (getDocumentHeight b - innerHeight b))"

definition demo_page :: "real \<Rightarrow> real \<Rightarrow> real \<Rightarrow> real \<Rightarrow> element \<Rightarrow> browser" where
  "demo_page y inner client doc target =
     \<lparr>pageYOffset = y, innerHeight = inner,
      body_scrollHeight = doc, documentElement_scrollHeight = doc,
      body_offsetHeight = doc, documentElement_offsetHeight = doc,
      body_clientHeight = doc, documentElement_clientHeight = client,
      elements = (\<lambda>name. if name = ''target'' then Some target else None),
      intervals = [], nextTimer = 1, timeouts = [], scrollLog = [], focusLog = [],
      callbackCalls = 0, defaultPrevented = False, pushStateSupported = True,
      historyEntries = [],
      location_protocol = ''https:'', location_host = ''example.org'',
      location_pathname = ''/'', location_search = []\<rparr>"

text \<open>
  Three runs on such pages. \<open>zoomed_start\<close>: the window is 800 high while the root
  element reports a client height of 900 (a pinch-zoomed mobile window), the page is
  2000 high and scrolled to 1150. \<open>long_start\<close>: a run of 8000 pixels from the top of
  a page. \<open>resting_start\<close>: the page already rests at the end location of the target,
  and a click is to be triggered on arrival.
\<close>

definition zoomed_start :: "run \<times> browser" where
  "zoomed_start =
     scrollTo demo_view (demo_target 1835) None (demo_page 1150 800 900 2000 (demo_target 1835))"

definition long_start :: "run \<times> browser" where
  "long_start =
     scrollTo demo_view (demo_target 8040) None (demo_page 0 800 800 10000 (demo_target 8040))"

definition resting_start :: "run \<times> browser" where
  "resting_start =
     scrollTo demo_view (demo_target 140) (Some (TriggerClick (demo_target 140)))
       (demo_page 100 800 800 10000 (demo_target 140))"

text \<open>
  \<open>up_start\<close>: a run upward, from offset 1000 to a target whose end location is 100.
  \<open>up_state\<close> is that run with the values of a later tick: the elapsed time, the
  percentage, the position, the acceleration, the offset of the window and the scroll
  requests made so far.
\<close>

definition up_start :: "run \<times> browser" where
  "up_start =
     scrollTo demo_view (demo_target 140) None (demo_page 1000 800 800 10000 (demo_target 140))"

definition up_state ::
  "real \<Rightarrow> real \<Rightarrow> real \<Rightarrow> real \<Rightarrow> real \<Rightarrow> int list \<Rightarrow> run \<times> browser" where
  "up_state lapsed pct pos acc y requests =
     (\<lparr>destination = demo_target 140, callback = None, startLocation = 1000,
       documentHeight = 10000, viewportHeight = 800, endLocation = 100,
       height = 40, distance = - 900, animationInterval = Some 1,
       timeLapsed = lapsed, percentage = pct, position = pos, acceleration = acc,
       timeToAnimate = - 225\<rparr>,
      (demo_page y 800 800 10000 (demo_target 140))
        \<lparr>intervals := [1], nextTimer := 2, scrollLog := requests\<rparr>)"

section \<open>Properties of the easing pattern\<close>

lemma cube_ge_minus_eighth:
  fixes x :: real
  assumes "- (1 / 2) \<le> x"
  shows "- (1 / 8) \<le> x ^ 3"
proof -
  have "(- (1 / 2)) ^ 3 \<le> x ^ 3"
    using assms by (intro power_mono_odd) simp_all
  then show ?thesis by (simp add: power3_eq_cube)
qed

lemma cubic_closed_form:
  "easingPattern ''easeInOutCubic'' t = (if t < 1 / 2 then 4 * t ^ 3 else 4 * (t - 1) ^ 3 + 1)"
proof (cases "t < 1 / 2")
  case True
  then show ?thesis
    by (simp add: easingPattern_def js_or_def power3_eq_cube)
next
  case False
  then have "- (1 / 2) \<le> t - 1" by simp
  then have "- (1 / 8) \<le> (t - 1) ^ 3" by (rule cube_ge_minus_eighth)
  then have nz: "4 * (t - 1) ^ 3 + 1 \<noteq> 0" by linarith
  have eq: "(t - 1) * (2 * t - 2) * (2 * t - 2) + 1 = 4 * (t - 1) ^ 3 + 1"
    by (simp add: power3_eq_cube algebra_simps)
  from False nz eq show ?thesis
    by (simp add: easingPattern_def js_or_def)
qed

lemma cubic_mono:
  assumes "s \<le> t"
  shows "easingPattern ''easeInOutCubic'' s \<le> easingPattern ''easeInOutCubic'' t"
proof -
  have lo: "4 * s ^ 3 \<le> 4 * t ^ 3"
    using assms by (simp add: power_mono_odd)
  have hi: "4 * (s - 1) ^ 3 + 1 \<le> 4 * (t - 1) ^ 3 + 1"
    using assms by (simp add: power_mono_odd)
  show ?thesis
  proof (cases "t < 1 / 2")
    case True
    with assms lo show ?thesis by (simp add: cubic_closed_form)
  next
    case tbig: False
    show ?thesis
    proof (cases "s < 1 / 2")
      case True
      have "s ^ 3 \<le> (1 / 2) ^ 3"
        using True by (intro power_mono_odd) simp_all
      then have a: "4 * s ^ 3 \<le> 1 / 2" by (simp add: power3_eq_cube)
      have "- (1 / 8) \<le> (t - 1) ^ 3"
        using tbig by (intro cube_ge_minus_eighth) simp
      then have b: "1 / 2 \<le> 4 * (t - 1) ^ 3 + 1" by linarith
      from True tbig a b show ?thesis by (simp add: cubic_closed_form)
    next
      case False
      with tbig hi show ?thesis by (simp add: cubic_closed_form)
    qed
  qed
qed

lemma cubic_at_0: "easingPattern ''easeInOutCubic'' 0 = 0"
  by (simp add: cubic_closed_form)

text \<open>
  C7. For every type other than \<^verbatim>\<open>'easeInOutCubic'\<close> and every time, the easing
  pattern is the time itself. The function has no failing branch for any pair of
  arguments: it is a total function into the numbers.
\<close>

theorem easingPattern_fallback_linear:
  "type \<noteq> ''easeInOutCubic'' \<Longrightarrow> easingPattern type time = time"
  by (simp add: easingPattern_def js_or_def)

theorem easingPattern_fallback_linear_witness:
  "''linear'' \<noteq> ''easeInOutCubic'' \<and> easingPattern ''linear'' (7 / 10) = 7 / 10 \<and>
   easingPattern ''linear'' (- 3) = - 3"
  using easingPattern_fallback_linear [of "''linear''" "7 / 10"]
    easingPattern_fallback_linear [of "''linear''" "- 3"] by simp


section \<open>Properties of the easing pattern in double arithmetic\<close>

text \<open>Rounding to the nearest integer, ties to even, is monotone and exact on integers.\<close>

lemma rhe_bounds: "\<lfloor>q\<rfloor> \<le> round_half_even q \<and> round_half_even q \<le> \<lfloor>q\<rfloor> + 1"
  by (simp add: round_half_even_def Let_def)

lemma rhe_of_int: "round_half_even (of_int n) = n"
  by (simp add: round_half_even_def)

lemma rhe_mono:
  assumes "p \<le> q"
  shows "round_half_even p \<le> round_half_even q"
proof (cases "\<lfloor>p\<rfloor> = \<lfloor>q\<rfloor>")
  case True
  with assms show ?thesis
    by (auto simp add: round_half_even_def Let_def)
next
  case False
  with assms have "\<lfloor>p\<rfloor> + 1 \<le> \<lfloor>q\<rfloor>"
    using floor_mono [of p q] by linarith
  with rhe_bounds [of p] rhe_bounds [of q] show ?thesis by linarith
qed

lemma log2_bracket:
  assumes "0 < x"
  shows "2 powr of_int \<lfloor>log 2 x\<rfloor> \<le> x \<and> x < 2 powr of_int (\<lfloor>log 2 x\<rfloor> + 1)"
  using assms floor_log_eq_powr_iff [of x 2 "\<lfloor>log 2 x\<rfloor>"] by simp

lemma ulp_exponent_mono: "0 < x \<Longrightarrow> x \<le> y \<Longrightarrow> ulp_exponent x \<le> ulp_exponent y"
  by (simp add: ulp_exponent_def floor_mono max.coboundedI1)

lemma round64_pos_upper:
  assumes "0 < x"
  shows "round64_pos x \<le> 2 powr of_int (ulp_exponent x + 53)"
proof -
  let ?e = "ulp_exponent x"
  let ?u = "(2::real) powr of_int ?e"
  have u: "0 < ?u" by simp
  have "\<lfloor>log 2 x\<rfloor> + 1 \<le> ?e + 53" by (simp add: ulp_exponent_def)
  then have "2 powr of_int (\<lfloor>log 2 x\<rfloor> + 1) \<le> (2::real) powr of_int (?e + 53)"
    by (intro powr_mono) simp_all
  with log2_bracket [OF assms] have "x < 2 powr of_int (?e + 53)" by linarith
  also have "\<dots> = 2 ^ 53 * ?u"
    by (simp add: powr_add)
  finally have "x / ?u < 2 ^ 53" using u by (simp add: pos_divide_less_eq)
  then have "x / ?u < of_int (2 ^ 53)" by simp
  then have "\<lfloor>x / ?u\<rfloor> < 2 ^ 53" by (simp only: floor_less_iff)
  with rhe_bounds [of "x / ?u"] have "round_half_even (x / ?u) \<le> 2 ^ 53" by linarith
  then have "real_of_int (round_half_even (x / ?u)) \<le> 2 ^ 53"
    by (metis of_int_le_iff of_int_numeral of_int_power)
  then have "round64_pos x \<le> 2 ^ 53 * ?u"
    unfolding round64_pos_def using u by (simp add: mult_right_mono)
  then show ?thesis by (simp add: powr_add)
qed

lemma round64_pos_lower:
  assumes "0 < x" and "- 1022 \<le> \<lfloor>log 2 x\<rfloor>"
  shows "2 powr of_int (ulp_exponent x + 52) \<le> round64_pos x"
proof -
  let ?e = "ulp_exponent x"
  let ?u = "(2::real) powr of_int ?e"
  have u: "0 < ?u" by simp
  have e: "?e + 52 = \<lfloor>log 2 x\<rfloor>" using assms(2) by (simp add: ulp_exponent_def)
  have "2 powr of_int (?e + 52) \<le> x" using log2_bracket [OF assms(1)] by (simp only: e)
  moreover have "2 powr of_int (?e + 52) = 2 ^ 52 * ?u" by (simp add: powr_add)
  ultimately have "2 ^ 52 \<le> x / ?u" using u by (simp add: pos_le_divide_eq)
  then have "of_int (2 ^ 52) \<le> x / ?u" by simp
  then have "2 ^ 52 \<le> \<lfloor>x / ?u\<rfloor>" by (simp only: le_floor_iff)
  with rhe_bounds [of "x / ?u"] have "2 ^ 52 \<le> round_half_even (x / ?u)" by linarith
  then have "2 ^ 52 \<le> real_of_int (round_half_even (x / ?u))"
    by (metis of_int_le_iff of_int_numeral of_int_power)
  then have "2 ^ 52 * ?u \<le> round64_pos x"
    unfolding round64_pos_def using u by (simp add: mult_right_mono)
  then show ?thesis by (simp add: powr_add)
qed

lemma round64_pos_nonneg: "0 < x \<Longrightarrow> 0 \<le> round64_pos x"
proof -
  assume "0 < x"
  then have "0 \<le> x / 2 powr of_int (ulp_exponent x)" by simp
  then have "0 \<le> \<lfloor>x / 2 powr of_int (ulp_exponent x)\<rfloor>" by simp
  with rhe_bounds [of "x / 2 powr of_int (ulp_exponent x)"]
  have "0 \<le> round_half_even (x / 2 powr of_int (ulp_exponent x))" by linarith
  then show ?thesis by (simp add: round64_pos_def)
qed

lemma round64_pos_mono:
  assumes "0 < x" and "x \<le> y"
  shows "round64_pos x \<le> round64_pos y"
proof -
  have y: "0 < y" using assms by linarith
  have le: "ulp_exponent x \<le> ulp_exponent y" using assms by (rule ulp_exponent_mono)
  show ?thesis
  proof (cases "ulp_exponent x = ulp_exponent y")
    case True
    have "x / 2 powr of_int (ulp_exponent y) \<le> y / 2 powr of_int (ulp_exponent y)"
      using assms(2) by (simp add: divide_right_mono)
    then have "round_half_even (x / 2 powr of_int (ulp_exponent y))
        \<le> round_half_even (y / 2 powr of_int (ulp_exponent y))"
      by (rule rhe_mono)
    then show ?thesis
      by (simp add: round64_pos_def True mult_right_mono)
  next
    case False
    with le have lt: "ulp_exponent x + 53 \<le> ulp_exponent y + 52" by simp
    have "- 1074 \<le> ulp_exponent x" by (simp add: ulp_exponent_def)
    with lt have "- 1022 \<le> \<lfloor>log 2 y\<rfloor>" by (simp add: ulp_exponent_def max_def split: if_splits)
    then have "2 powr of_int (ulp_exponent y + 52) \<le> round64_pos y"
      using y by (intro round64_pos_lower)
    moreover have "(2::real) powr of_int (ulp_exponent x + 53) \<le> 2 powr of_int (ulp_exponent y + 52)"
      using lt by (intro powr_mono) simp_all
    moreover note round64_pos_upper [OF assms(1)]
    ultimately show ?thesis by linarith
  qed
qed

lemma round64_mono:
  assumes "x \<le> y"
  shows "round64 x \<le> round64 y"
proof -
  consider "x = y" | "x < y" "0 < x" | "x < y" "x = 0" | "x < y" "x < 0" "0 < y"
    | "x < y" "x < 0" "y = 0" | "x < y" "y < 0"
    using assms by linarith
  then show ?thesis
  proof cases
    case 1
    then show ?thesis by simp
  next
    case 2
    then show ?thesis using round64_pos_mono [of x y] by (simp add: round64_def)
  next
    case 3
    then show ?thesis using round64_pos_nonneg [of y] by (simp add: round64_def)
  next
    case 4
    then show ?thesis
      using round64_pos_nonneg [of y] round64_pos_nonneg [of "- x"] by (simp add: round64_def)
  next
    case 5
    then show ?thesis using round64_pos_nonneg [of "- x"] by (simp add: round64_def)
  next
    case 6
    then show ?thesis using round64_pos_mono [of "- y" "- x"] by (simp add: round64_def)
  qed
qed

lemma round64_minus: "round64 (- x) = - round64 x"
  by (simp add: round64_def)


lemma round64_pow2:
  assumes "- 1074 \<le> k"
  shows "round64 (2 powr of_int k) = 2 powr of_int k"
proof -
  let ?x = "(2::real) powr of_int k"
  have l: "\<lfloor>log 2 ?x\<rfloor> = k" by simp
  define n where "n = k - ulp_exponent ?x"
  have n: "0 \<le> n" using assms by (simp add: n_def ulp_exponent_def l)
  have "?x / 2 powr of_int (ulp_exponent ?x) = 2 powr of_int n"
    by (simp add: n_def powr_diff)
  also have "\<dots> = 2 powr real (nat n)" using n by simp
  also have "\<dots> = of_int (2 ^ nat n)" by (simp add: powr_realpow)
  finally have q: "?x / 2 powr of_int (ulp_exponent ?x) = of_int (2 ^ nat n)" .
  have "round64_pos ?x = of_int (2 ^ nat n) * 2 powr of_int (ulp_exponent ?x)"
    unfolding round64_pos_def q rhe_of_int ..
  also have "\<dots> = ?x / 2 powr of_int (ulp_exponent ?x) * 2 powr of_int (ulp_exponent ?x)"
    by (simp only: q)
  also have "\<dots> = ?x" by simp
  finally show ?thesis by (simp add: round64_def)
qed


lemma round64_exact:
  "round64 1 = 1" "round64 2 = 2" "round64 (1 / 2) = 1 / 2"
  "round64 (- 1) = - 1" "round64 (- (1 / 2)) = - (1 / 2)"
  using round64_pow2 [of 0] round64_pow2 [of 1] round64_pow2 [of "- 1"]
  by (simp_all add: round64_minus powr_minus)



lemma round64_le_1: "x \<le> 1 \<Longrightarrow> round64 x \<le> 1"
  using round64_mono [of x 1] by (simp add: round64_exact)

lemma round64_le_half: "x \<le> 1 / 2 \<Longrightarrow> round64 x \<le> 1 / 2"
  using round64_mono [of x "1 / 2"] by (simp add: round64_exact)

lemma round64_ge_half: "1 / 2 \<le> x \<Longrightarrow> 1 / 2 \<le> round64 x"
  using round64_mono [of "1 / 2" x] by (simp add: round64_exact)


















section \<open>Properties of the end location\<close>

lemma getEndLocation_loop_chain:
  "getEndLocation_loop e location = location + chainOffset e"
  by (induction e location rule: getEndLocation_loop.induct) (simp_all add: chainOffset_def)

lemma demo_endLocation: "getEndLocation (demo_target y) = (if y \<ge> 0 then y else 0)"
  by (simp add: getEndLocation_def demo_target_def demo_body_def)

text \<open>
  C6, as the code has it. For an element with an offset parent the end location is the sum
  of the offset-top values of the element and of every offset parent after it, clamped from
  below at 0; for an element without an offset parent it is 0. A negative sum gives 0, and
  the result is never negative.
\<close>

theorem getEndLocation_clamped_sum:
  "getEndLocation e = (if offsetParent e = None then 0 else max 0 (chainOffset e)) \<and>
   0 \<le> getEndLocation e \<and>
   (offsetParent e \<noteq> None \<and> chainOffset e < 0 \<longrightarrow> getEndLocation e = 0)"
  by (simp add: getEndLocation_def getEndLocation_loop_chain Let_def max_def)

theorem getEndLocation_clamped_sum_witness:
  "offsetParent (Element (- 30) (Some (Element 10 None 0 0 0)) 0 0 0) \<noteq> None \<and>
   chainOffset (Element (- 30) (Some (Element 10 None 0 0 0)) 0 0 0) = - 20 \<and>
   getEndLocation (Element (- 30) (Some (Element 10 None 0 0 0)) 0 0 0) = 0 \<and>
   chainOffset (demo_target 140) = 140 \<and> getEndLocation (demo_target 140) = 140"
  using getEndLocation_clamped_sum [of "Element (- 30) (Some (Element 10 None 0 0 0)) 0 0 0"]
    getEndLocation_clamped_sum [of "demo_target 140"]
  by (simp add: chainOffset_def demo_target_def demo_body_def)

text \<open>
  C6 as stated fails. An element without an offset parent whose own offset-top is 50 (a
  fixed element 50 pixels below the top of the window) has the clamped sum 50 along its
  chain, and the end location is 0.
\<close>

theorem getEndLocation_own_offset_counterexample:
  "offsetParent (Element 50 None 20 20 20) = None \<and>
   chainOffset (Element 50 None 20 20 20) = 50 \<and>
   max 0 (chainOffset (Element 50 None 20 20 20)) = 50 \<and>
   getEndLocation (Element 50 None 20 20 20) = 0 \<and>
   getEndLocation (Element 50 None 20 20 20) \<noteq> max 0 (chainOffset (Element 50 None 20 20 20))"
  by (simp add: getEndLocation_def chainOffset_def)

text \<open>
  C10. For an element without an offset parent the end location is 0: the element's own
  offset-top is not added.
\<close>

theorem getEndLocation_no_offsetParent:
  "offsetParent e = None \<Longrightarrow> getEndLocation e = 0"
  by (simp add: getEndLocation_def)

theorem getEndLocation_no_offsetParent_witness:
  "offsetParent (Element 50 None 20 20 20) = None \<and> getEndLocation (Element 50 None 20 20 20) = 0"
  using getEndLocation_no_offsetParent [of "Element 50 None 20 20 20"] by simp

section \<open>Properties of the click handler\<close>

lemma scrollTo_history:
  "historyEntries (snd (scrollTo view dest cb b)) = historyEntries b"
  by (simp add: scrollTo_def Let_def setInterval_def root_scrollTo_def)

lemma demo_intercepted:
  "fst (handler demo_view \<lparr>href = Some ''#target'', smoothScroll = None\<rparr>
     (demo_page 0 800 800 10000 (demo_target 2000))) \<noteq> None \<and>
   defaultPrevented (snd (handler demo_view \<lparr>href = Some ''#target'', smoothScroll = None\<rparr>
     (demo_page 0 800 800 10000 (demo_target 2000)))) \<and>
   intervals (snd (handler demo_view \<lparr>href = Some ''#target'', smoothScroll = None\<rparr>
     (demo_page 0 800 800 10000 (demo_target 2000)))) = [1]"
  by (simp add: handler_def demo_page_def Let_def scrollTo_def setInterval_def root_scrollTo_def
      updateUrl_def preventDefault_def)

text \<open>
  C8. A click on an anchor whose \<^verbatim>\<open>data-smooth-scroll\<close> attribute is \<^verbatim>\<open>ignore\<close> is
  not intercepted: no run is started and the browser is left exactly as it was, so the
  default action is not prevented and no timer is set.
\<close>

theorem handler_ignore:
  "smoothScroll this = Some ''ignore'' \<Longrightarrow> handler view this b = (None, b)"
  by (simp add: handler_def split: option.splits)

theorem handler_ignore_witness:
  "smoothScroll \<lparr>href = Some ''#target'', smoothScroll = Some ''ignore''\<rparr> = Some ''ignore'' \<and>
   handler demo_view \<lparr>href = Some ''#target'', smoothScroll = Some ''ignore''\<rparr>
     (demo_page 0 800 800 10000 (demo_target 2000)) =
   (None, demo_page 0 800 800 10000 (demo_target 2000))"
  using handler_ignore [of "\<lparr>href = Some ''#target'', smoothScroll = Some ''ignore''\<rparr>"
      demo_view "demo_page 0 800 800 10000 (demo_target 2000)"]
  by simp

text \<open>
  C9. \<^verbatim>\<open>updateUrl\<close> with the url argument \<^verbatim>\<open>false\<close>, as the handler calls it, leaves
  the browser as it is; it pushes a history entry only when the url argument is truthy;
  and no call of the handler changes the history.
\<close>

theorem updateUrl_false_keeps_history:
  "updateUrl a (JBool False) b = b \<and>
   (historyEntries (updateUrl a url b) \<noteq> historyEntries b \<longrightarrow> truthy url) \<and>
   historyEntries (snd (handler view this b)) = historyEntries b"
  by (auto simp add: updateUrl_def handler_def Let_def scrollTo_history preventDefault_def
      split: option.splits)

theorem updateUrl_false_keeps_history_witness:
  "truthy (JBool True) \<and>
   historyEntries (updateUrl ''#target'' (JBool True) (demo_page 0 800 800 10000 (demo_target 2000)))
     = [''https://example.org/#target''] \<and>
   historyEntries (updateUrl ''#target'' (JBool True) (demo_page 0 800 800 10000 (demo_target 2000)))
     \<noteq> historyEntries (demo_page 0 800 800 10000 (demo_target 2000)) \<and>
   fst (handler demo_view \<lparr>href = Some ''#target'', smoothScroll = None\<rparr>
     (demo_page 0 800 800 10000 (demo_target 2000))) \<noteq> None \<and>
   historyEntries (snd (handler demo_view \<lparr>href = Some ''#target'', smoothScroll = None\<rparr>
     (demo_page 0 800 800 10000 (demo_target 2000)))) = []"
  using updateUrl_false_keeps_history [of "''#target''" "demo_page 0 800 800 10000 (demo_target 2000)"
      "JBool True" demo_view "\<lparr>href = Some ''#target'', smoothScroll = None\<rparr>"]
    demo_intercepted
  by (simp add: updateUrl_def demo_page_def)

section \<open>Properties of a tick\<close>

lemma loop_run:
  "fst (loopAnimateScroll view (r, b)) =
     r\<lparr>timeLapsed := timeLapsed r + 16,
       percentage :=
         (if timeToAnimate r = 0 then 1
          else if (timeLapsed r + 16) / timeToAnimate r > 1 then 1
          else (timeLapsed r + 16) / timeToAnimate r),
       position := position_at r (timeLapsed r + 16),
       acceleration :=
         \<bar>easingPattern (easing settings)
            (if timeToAnimate r = 0 then 1
             else if (timeLapsed r + 16) / timeToAnimate r > 1 then 1
             else (timeLapsed r + 16) / timeToAnimate r)\<bar>\<rparr>"
  by (simp add: loopAnimateScroll_def position_at_def Let_def abs_if)

lemma loop_browser:
  "snd (loopAnimateScroll view (r, b)) =
     stopAnimateScroll (position_at r (timeLapsed r + 16)) (endLocation r) (animationInterval r)
       (fst (loopAnimateScroll view (r, b)))
       (root_scrollTo view \<lfloor>position_at r (timeLapsed r + 16)\<rfloor> b)"
  by (simp add: loopAnimateScroll_def position_at_def Let_def abs_if)

lemma loop_interval:
  "animationInterval (fst (loopAnimateScroll view s)) = animationInterval (fst s)"
  by (cases s) (simp add: loop_run)

lemma loop_scrollLog:
  "scrollLog (snd (loopAnimateScroll view (r, b))) =
     \<lfloor>position_at r (timeLapsed r + 16)\<rfloor> # scrollLog b"
  by (simp add: loop_browser stopAnimateScroll_def root_scrollTo_def clearInterval_def focus_def
      invoke_def Let_def split: option.splits callback.splits)

text \<open>A tick whose stop condition holds clears the timer, focuses and calls back.\<close>

lemma loop_stops:
  assumes "animationInterval r = Some i"
    and "position_at r (timeLapsed r + 16) = endLocation r \<or>
         view b \<lfloor>position_at r (timeLapsed r + 16)\<rfloor> = endLocation r \<or>
         innerHeight b + view b \<lfloor>position_at r (timeLapsed r + 16)\<rfloor> \<ge> documentHeight r \<or>
         position_at r (timeLapsed r + 16) < 0"
  shows "i \<notin> set (intervals (snd (loopAnimateScroll view (r, b)))) \<and>
         focusLog (snd (loopAnimateScroll view (r, b))) = destination r # focusLog b \<and>
         callbackCalls (snd (loopAnimateScroll view (r, b))) =
           callbackCalls b + (if callback r = None then 0 else 1)"
  using assms
  by (simp add: loop_run loop_browser stopAnimateScroll_def root_scrollTo_def
      clearInterval_def focus_def invoke_def Let_def split: option.splits callback.splits)

text \<open>A tick whose stop condition fails only scrolls.\<close>

lemma loop_continues:
  assumes "\<not> (position_at r (timeLapsed r + 16) = endLocation r \<or>
         view b \<lfloor>position_at r (timeLapsed r + 16)\<rfloor> = endLocation r \<or>
         innerHeight b + view b \<lfloor>position_at r (timeLapsed r + 16)\<rfloor> \<ge> documentHeight r \<or>
         position_at r (timeLapsed r + 16) < 0)"
  shows "snd (loopAnimateScroll view (r, b)) =
           root_scrollTo view \<lfloor>position_at r (timeLapsed r + 16)\<rfloor> b"
  using assms by (simp add: loop_run loop_browser stopAnimateScroll_def root_scrollTo_def)

lemma tick_after_clear:
  "animationInterval (fst s) = Some i \<Longrightarrow> i \<notin> set (intervals (snd s)) \<Longrightarrow> tick view s = s"
  by (simp add: tick_def)

lemma tick_while_set:
  "animationInterval (fst s) = Some i \<Longrightarrow> i \<in> set (intervals (snd s)) \<Longrightarrow>
   tick view s = loopAnimateScroll view s"
  by (simp add: tick_def)

lemma ticks_after_clear:
  "animationInterval (fst s) = Some i \<Longrightarrow> i \<notin> set (intervals (snd s)) \<Longrightarrow>
   ticks view n s = s"
  by (induction n) (simp_all add: tick_after_clear)

lemma ticks_Suc_shift: "ticks view (Suc n) s = ticks view n (tick view s)"
  by (induction n) simp_all

text \<open>
  C1, as the code has it. A tick of a run whose timer is set computes the position, asks
  the window to scroll to its floor, and ends the run (the timer is cleared, so no further
  tick happens; the destination is focused; the callback, if there is one, is called)
  exactly when the position equals the end location, or the offset that the window then
  reports equals the end location, or the window's inner height as read at this tick plus
  that offset is at least the document height, or the position is negative. Otherwise the
  timer stays set, nothing else happens, and the next tick runs.
\<close>

theorem tick_terminates_iff:
  assumes "animationInterval r = Some i" and "i \<in> set (intervals b)"
  shows
  "position (fst (loopAnimateScroll view (r, b))) = position_at r (timeLapsed r + 16) \<and>
   pageYOffset (snd (loopAnimateScroll view (r, b))) =
     view b \<lfloor>position (fst (loopAnimateScroll view (r, b)))\<rfloor> \<and>
   (if position (fst (loopAnimateScroll view (r, b))) = endLocation r \<or>
       pageYOffset (snd (loopAnimateScroll view (r, b))) = endLocation r \<or>
       innerHeight b + pageYOffset (snd (loopAnimateScroll view (r, b))) \<ge> documentHeight r \<or>
       position (fst (loopAnimateScroll view (r, b))) < 0
    then i \<notin> set (intervals (snd (loopAnimateScroll view (r, b)))) \<and>
         focusLog (snd (loopAnimateScroll view (r, b))) = destination r # focusLog b \<and>
         callbackCalls (snd (loopAnimateScroll view (r, b))) =
           callbackCalls b + (if callback r = None then 0 else 1) \<and>
         tick view' (loopAnimateScroll view (r, b)) = loopAnimateScroll view (r, b)
    else i \<in> set (intervals (snd (loopAnimateScroll view (r, b)))) \<and>
         focusLog (snd (loopAnimateScroll view (r, b))) = focusLog b \<and>
         callbackCalls (snd (loopAnimateScroll view (r, b))) = callbackCalls b \<and>
         tick view' (loopAnimateScroll view (r, b)) =
           loopAnimateScroll view' (loopAnimateScroll view (r, b)))"
proof -
  let ?s = "loopAnimateScroll view (r, b)"
  let ?pos = "position_at r (timeLapsed r + 16)"
  have p: "position (fst ?s) = ?pos" by (simp add: loop_run)
  have h: "animationInterval (fst ?s) = Some i" using assms(1) by (simp add: loop_interval)
  have y: "pageYOffset (snd ?s) = view b \<lfloor>?pos\<rfloor>"
    by (simp add: loop_browser stopAnimateScroll_def root_scrollTo_def clearInterval_def
        focus_def invoke_def Let_def split: option.splits callback.splits)
  show ?thesis
  proof (cases "?pos = endLocation r \<or> view b \<lfloor>?pos\<rfloor> = endLocation r \<or>
      innerHeight b + view b \<lfloor>?pos\<rfloor> \<ge> documentHeight r \<or> ?pos < 0")
    case True
    note st = loop_stops [where view = view and b = b, OF assms(1) True]
    from st have c: "i \<notin> set (intervals (snd ?s))" by (rule conjunct1)
    have "tick view' ?s = ?s" using h c by (rule tick_after_clear)
    with st True show ?thesis unfolding p y by simp
  next
    case False
    have b': "snd ?s = root_scrollTo view \<lfloor>?pos\<rfloor> b" using loop_continues [where view = view and b = b and r = r] False by simp
    have i': "i \<in> set (intervals (snd ?s))" using assms(2) by (simp add: b' root_scrollTo_def)
    have "tick view' ?s = loopAnimateScroll view' ?s" using h i' by (rule tick_while_set)
    with False i' show ?thesis unfolding p y by (simp add: b' root_scrollTo_def)
  qed
qed

section \<open>Evaluating the concrete runs\<close>

lemma demo_docHeight: "getDocumentHeight (demo_page y inner client doc target) = max doc client"
  by (simp add: getDocumentHeight_def demo_page_def max_def)

lemma demo_view_page:
  "demo_view ((demo_page y inner client doc target)
       \<lparr>intervals := ts, nextTimer := t, scrollLog := l\<rparr>) z =
     max 0 (min (real_of_int z) (max doc client - inner))"
  by (simp add: demo_view_def getDocumentHeight_def demo_page_def max_def)

lemma zoomed_start_eq:
  "zoomed_start =
    (\<lparr>destination = demo_target 1835, callback = None, startLocation = 1150,
      documentHeight = 2000, viewportHeight = 900, endLocation = 1790,
      height = 40, distance = 640, animationInterval = Some 1,
      timeLapsed = 0, percentage = 0, position = 0, acceleration = 0, timeToAnimate = 160\<rparr>,
     (demo_page 1150 800 900 2000 (demo_target 1835))
       \<lparr>intervals := [1], nextTimer := 2, scrollLog := []\<rparr>)"
  (is "_ = ?rhs")
proof -
  have "fst zoomed_start = fst ?rhs"
    by (simp add: zoomed_start_def scrollTo_def Let_def settings_def demo_endLocation
        demo_docHeight js_or_def setInterval_def getHeight_def)
      (simp add: demo_page_def demo_target_def)
  moreover have "snd zoomed_start = snd ?rhs"
    by (simp add: zoomed_start_def scrollTo_def Let_def setInterval_def demo_page_def)
  ultimately show ?thesis by (simp add: prod_eq_iff)
qed

lemma zoomed_loop1:
  "loopAnimateScroll demo_view zoomed_start =
    (\<lparr>destination = demo_target 1835, callback = None, startLocation = 1150,
      documentHeight = 2000, viewportHeight = 900, endLocation = 1790,
      height = 40, distance = 640, animationInterval = Some 1,
      timeLapsed = 16, percentage = 1 / 10, position = 1152 + 14 / 25,
      acceleration = 1 / 250, timeToAnimate = 160\<rparr>,
     (demo_page 1150 800 900 2000 (demo_target 1835))
       \<lparr>pageYOffset := 1152, intervals := [1], nextTimer := 2, scrollLog := [1152]\<rparr>)"
proof -
  have f: "\<lfloor>28814 / 25 :: real\<rfloor> = 1152" by (simp add: floor_eq_iff)
  show ?thesis
    unfolding zoomed_start_eq
    apply (simp add: loopAnimateScroll_def Let_def settings_def easingPattern_def js_or_def f)
    apply (simp add: stopAnimateScroll_def root_scrollTo_def demo_view_page)
    apply (simp add: demo_page_def)
    done
qed

lemma long_start_eq:
  "long_start =
    (\<lparr>destination = demo_target 8040, callback = None, startLocation = 0,
      documentHeight = 10000, viewportHeight = 800, endLocation = 8000,
      height = 40, distance = 8000, animationInterval = Some 1,
      timeLapsed = 0, percentage = 0, position = 0, acceleration = 0, timeToAnimate = 2000\<rparr>,
     (demo_page 0 800 800 10000 (demo_target 8040))
       \<lparr>intervals := [1], nextTimer := 2, scrollLog := [0]\<rparr>)"
  (is "_ = ?rhs")
proof -
  have "fst long_start = fst ?rhs"
    by (simp add: long_start_def scrollTo_def Let_def settings_def demo_endLocation
        demo_docHeight js_or_def setInterval_def getHeight_def)
      (simp add: demo_page_def demo_target_def root_scrollTo_def)
  moreover have "snd long_start = snd ?rhs"
    by (simp add: long_start_def scrollTo_def Let_def setInterval_def demo_page_def
        root_scrollTo_def demo_view_def getDocumentHeight_def)
  ultimately show ?thesis by (simp add: prod_eq_iff)
qed

lemma long_loop1:
  "loopAnimateScroll demo_view long_start =
    (\<lparr>destination = demo_target 8040, callback = None, startLocation = 0,
      documentHeight = 10000, viewportHeight = 800, endLocation = 8000,
      height = 40, distance = 8000, animationInterval = Some 1,
      timeLapsed = 16, percentage = 1 / 125, position = 256 / 15625,
      acceleration = 4 / 1953125, timeToAnimate = 2000\<rparr>,
     (demo_page 0 800 800 10000 (demo_target 8040))
       \<lparr>intervals := [1], nextTimer := 2, scrollLog := [0, 0]\<rparr>)"
proof -
  have f: "\<lfloor>256 / 15625 :: real\<rfloor> = 0" by (simp add: floor_eq_iff)
  show ?thesis
    unfolding long_start_eq
    apply (simp add: loopAnimateScroll_def Let_def settings_def easingPattern_def js_or_def f)
    apply (simp add: stopAnimateScroll_def root_scrollTo_def demo_view_page)
    apply (simp add: demo_page_def)
    done
qed

lemma long_loop2:
  "loopAnimateScroll demo_view (loopAnimateScroll demo_view long_start) =
    (\<lparr>destination = demo_target 8040, callback = None, startLocation = 0,
      documentHeight = 10000, viewportHeight = 800, endLocation = 8000,
      height = 40, distance = 8000, animationInterval = Some 1,
      timeLapsed = 32, percentage = 2 / 125, position = 2048 / 15625,
      acceleration = 32 / 1953125, timeToAnimate = 2000\<rparr>,
     (demo_page 0 800 800 10000 (demo_target 8040))
       \<lparr>intervals := [1], nextTimer := 2, scrollLog := [0, 0, 0]\<rparr>)"
proof -
  have f: "\<lfloor>2048 / 15625 :: real\<rfloor> = 0" by (simp add: floor_eq_iff)
  show ?thesis
    unfolding long_loop1
    apply (simp add: loopAnimateScroll_def Let_def settings_def easingPattern_def js_or_def f)
    apply (simp add: stopAnimateScroll_def root_scrollTo_def demo_view_page)
    apply (simp add: demo_page_def)
    done
qed

lemma long_ticks1: "ticks demo_view (Suc 0) long_start = loopAnimateScroll demo_view long_start"
  by (simp add: tick_def long_start_eq demo_page_def)

lemma long_ticks2:
  "ticks demo_view (Suc (Suc 0)) long_start =
     loopAnimateScroll demo_view (loopAnimateScroll demo_view long_start)"
  unfolding ticks.simps(2) [of _ "Suc 0"] long_ticks1
  by (simp add: tick_def long_loop1 demo_page_def)

lemma resting_start_fields:
  "distance (fst resting_start) = 0"
  "animationInterval (fst resting_start) = Some 1"
  "1 \<in> set (intervals (snd resting_start))"
  "endLocation (fst resting_start) = 100"
  "startLocation (fst resting_start) = 100"
  "timeLapsed (fst resting_start) = 0"
  "focusLog (snd resting_start) = []"
  "callbackCalls (snd resting_start) = 0"
  "callback (fst resting_start) = Some (TriggerClick (demo_target 140))"
  "destination (fst resting_start) = demo_target 140"
  by (simp_all add: resting_start_def scrollTo_def Let_def settings_def demo_endLocation
      js_or_def setInterval_def, simp_all add: demo_page_def)

text \<open>
  C1 as stated fails. In the zoomed window the viewport height of the run is 900, so after
  the first tick (offset 1152, document height 2000) the condition of the claim holds;
  the code compares with the inner height 800 and the run goes on: the timer is still set
  and nothing was focused.
\<close>

theorem tick_viewportHeight_counterexample:
  "viewportHeight (fst zoomed_start) = 900 \<and>
   animationInterval (fst zoomed_start) = Some 1 \<and>
   1 \<in> set (intervals (snd zoomed_start)) \<and>
   spec_termination (fst (loopAnimateScroll demo_view zoomed_start))
     (position (fst (loopAnimateScroll demo_view zoomed_start)))
     (pageYOffset (snd (loopAnimateScroll demo_view zoomed_start))) \<and>
   1 \<in> set (intervals (snd (loopAnimateScroll demo_view zoomed_start))) \<and>
   focusLog (snd (loopAnimateScroll demo_view zoomed_start)) = [] \<and>
   tick demo_view (loopAnimateScroll demo_view zoomed_start) =
     loopAnimateScroll demo_view (loopAnimateScroll demo_view zoomed_start)"
  unfolding zoomed_loop1
  by (simp add: zoomed_start_eq spec_termination_def tick_def demo_page_def)

lemma position_at_zero_distance:
  "distance r = 0 \<Longrightarrow> position_at r lapsed = startLocation r"
  by (simp add: position_at_def Let_def)

theorem tick_terminates_iff_witness:
  "animationInterval (fst zoomed_start) = Some 1 \<and> 1 \<in> set (intervals (snd zoomed_start)) \<and>
   position (fst (loopAnimateScroll demo_view zoomed_start)) = 1152 + 14 / 25 \<and>
   pageYOffset (snd (loopAnimateScroll demo_view zoomed_start)) = 1152 \<and>
   1 \<in> set (intervals (snd (loopAnimateScroll demo_view zoomed_start))) \<and>
   animationInterval (fst resting_start) = Some 1 \<and> 1 \<in> set (intervals (snd resting_start)) \<and>
   position (fst (loopAnimateScroll demo_view resting_start)) = 100 \<and>
   1 \<notin> set (intervals (snd (loopAnimateScroll demo_view resting_start))) \<and>
   focusLog (snd (loopAnimateScroll demo_view resting_start)) = [demo_target 140] \<and>
   callbackCalls (snd (loopAnimateScroll demo_view resting_start)) = 1"
proof -
  have z: "animationInterval (fst zoomed_start) = Some 1" "1 \<in> set (intervals (snd zoomed_start))"
    by (simp_all add: zoomed_start_eq demo_page_def)
  have zp: "position (fst (loopAnimateScroll demo_view zoomed_start)) = 1152 + 14 / 25"
    and zy: "pageYOffset (snd (loopAnimateScroll demo_view zoomed_start)) = 1152"
    by (simp_all add: zoomed_loop1)
  have zv: "innerHeight (snd zoomed_start) = 800" "endLocation (fst zoomed_start) = 1790"
      "documentHeight (fst zoomed_start) = 2000"
    by (simp_all add: zoomed_start_eq demo_page_def)
  have r: "animationInterval (fst resting_start) = Some 1" "1 \<in> set (intervals (snd resting_start))"
    using resting_start_fields(2,3) by simp_all
  have rp: "position (fst (loopAnimateScroll demo_view resting_start)) = 100"
    using loop_run [of demo_view "fst resting_start" "snd resting_start"]
    by (simp add: position_at_zero_distance resting_start_fields)
  note t1 = tick_terminates_iff [OF z, where view = demo_view and view' = demo_view,
      unfolded prod.collapse zp zy zv]
  note t2 = tick_terminates_iff [OF r, where view = demo_view and view' = demo_view,
      unfolded prod.collapse rp resting_start_fields(4,7,8,9,10)]
  have "1 \<in> set (intervals (snd (loopAnimateScroll demo_view zoomed_start)))"
    using t1 by simp
  moreover have "1 \<notin> set (intervals (snd (loopAnimateScroll demo_view resting_start))) \<and>
      focusLog (snd (loopAnimateScroll demo_view resting_start)) = [demo_target 140] \<and>
      callbackCalls (snd (loopAnimateScroll demo_view resting_start)) = 1"
    using t2 by simp
  ultimately show ?thesis
    using z r zp zy rp by simp
qed

section \<open>Properties of a run\<close>

lemma scrollTo_fields:
  "animationInterval (fst (scrollTo view dest cb b)) = Some (nextTimer b)"
  "nextTimer b \<in> set (intervals (snd (scrollTo view dest cb b)))"
  "timeLapsed (fst (scrollTo view dest cb b)) = 0"
  "callback (fst (scrollTo view dest cb b)) = cb"
  "destination (fst (scrollTo view dest cb b)) = dest"
  "timeToAnimate (fst (scrollTo view dest cb b)) = distance (fst (scrollTo view dest cb b)) / 4"
  "endLocation (fst (scrollTo view dest cb b)) =
     startLocation (fst (scrollTo view dest cb b)) + distance (fst (scrollTo view dest cb b))"
  "focusLog (snd (scrollTo view dest cb b)) = focusLog b"
  "callbackCalls (snd (scrollTo view dest cb b)) = callbackCalls b"
  by (simp_all add: scrollTo_def Let_def setInterval_def root_scrollTo_def settings_def)

text \<open>
  C5. A run whose distance is 0 ends with its first tick: the timer, set by
  \<^verbatim>\<open>scrollTo\<close>, is cleared from the first tick on, only that one tick has run however
  often the timer was due, the destination was focused once, and the callback, if there is
  one, was called exactly once.
\<close>

theorem zero_distance_one_tick:
  assumes "distance (fst (scrollTo view dest cb b)) = 0"
  shows "nextTimer b \<in> set (intervals (snd (scrollTo view dest cb b))) \<and>
         nextTimer b \<notin> set (intervals (snd (ticks view (Suc n) (scrollTo view dest cb b)))) \<and>
         timeLapsed (fst (ticks view (Suc n) (scrollTo view dest cb b))) = 16 \<and>
         focusLog (snd (ticks view (Suc n) (scrollTo view dest cb b))) = dest # focusLog b \<and>
         callbackCalls (snd (ticks view (Suc n) (scrollTo view dest cb b))) =
           callbackCalls b + (if cb = None then 0 else 1)"
proof -
  define s0 where "s0 = scrollTo view dest cb b"
  obtain r0 b0 where s0: "s0 = (r0, b0)" by (cases s0)
  have r0: "animationInterval r0 = Some (nextTimer b)" "timeLapsed r0 = 0" "callback r0 = cb"
      "destination r0 = dest" "endLocation r0 = startLocation r0 + distance r0"
    and b0: "nextTimer b \<in> set (intervals b0)" "focusLog b0 = focusLog b"
      "callbackCalls b0 = callbackCalls b"
    using scrollTo_fields [where view = view and dest = dest and cb = cb and b = b] s0
    by (simp_all add: s0_def [symmetric])
  have d0: "distance r0 = 0" using assms s0 by (simp add: s0_def [symmetric])
  have first: "tick view s0 = loopAnimateScroll view (r0, b0)"
    using r0 b0 by (simp add: tick_def s0)
  have pos: "position_at r0 (timeLapsed r0 + 16) = endLocation r0"
    using d0 r0 by (simp add: position_at_zero_distance)
  from loop_stops [where view = view and b = b0, OF r0(1)] pos
  have done1: "nextTimer b \<notin> set (intervals (snd (loopAnimateScroll view (r0, b0))))"
    and foc: "focusLog (snd (loopAnimateScroll view (r0, b0))) = dest # focusLog b"
    and cbs: "callbackCalls (snd (loopAnimateScroll view (r0, b0))) =
        callbackCalls b + (if cb = None then 0 else 1)"
    using r0 b0 by simp_all
  have h: "animationInterval (fst (loopAnimateScroll view (r0, b0))) = Some (nextTimer b)"
    using r0 by (simp add: loop_interval)
  have "ticks view (Suc n) s0 = ticks view n (loopAnimateScroll view (r0, b0))"
    by (simp only: ticks_Suc_shift first)
  also have "\<dots> = loopAnimateScroll view (r0, b0)"
    using h done1 by (rule ticks_after_clear)
  finally have all: "ticks view (Suc n) s0 = loopAnimateScroll view (r0, b0)" .
  have lapsed: "timeLapsed (fst (loopAnimateScroll view (r0, b0))) = 16"
    using r0 by (simp add: loop_run)
  show ?thesis
    using b0 done1 foc cbs lapsed unfolding s0_def [symmetric] all by (simp add: s0)
qed

theorem zero_distance_one_tick_witness:
  "distance (fst resting_start) = 0 \<and>
   1 \<in> set (intervals (snd resting_start)) \<and>
   1 \<notin> set (intervals (snd (ticks demo_view (Suc 2) resting_start))) \<and>
   timeLapsed (fst (ticks demo_view (Suc 2) resting_start)) = 16 \<and>
   focusLog (snd (ticks demo_view (Suc 2) resting_start)) = [demo_target 140] \<and>
   callbackCalls (snd (ticks demo_view (Suc 2) resting_start)) = 1"
proof -
  have d: "distance (fst resting_start) = 0" by (rule resting_start_fields)
  from zero_distance_one_tick [OF d [unfolded resting_start_def], where n = 2] d
  show ?thesis
    unfolding resting_start_def [symmetric] by (simp add: demo_page_def)
qed

lemma position_at_mono:
  assumes d: "0 < distance r" and T: "timeToAnimate r = distance r / 4"
    and l: "0 \<le> l" "l \<le> l'"
  shows "position_at r l \<le> position_at r l'"
proof -
  let ?T = "timeToAnimate r"
  let ?p = "\<lambda>x. if x / ?T > 1 then 1 else x / ?T"
  have Tpos: "0 < ?T" using d T by simp
  have p0: "0 \<le> ?p l" using l Tpos by simp
  have pm: "?p l \<le> ?p l'"
    using l Tpos by (simp add: divide_right_mono)
  have e0: "0 \<le> easingPattern ''easeInOutCubic'' (?p l)"
    using cubic_mono [OF p0] by (simp add: cubic_at_0)
  have em: "easingPattern ''easeInOutCubic'' (?p l) \<le> easingPattern ''easeInOutCubic'' (?p l')"
    using pm by (rule cubic_mono)
  have "distance r * easingPattern ''easeInOutCubic'' (?p l)
        \<le> distance r * easingPattern ''easeInOutCubic'' (?p l')"
    using em d by (simp add: mult_left_mono)
  moreover have "position_at r l =
      startLocation r + distance r * easingPattern ''easeInOutCubic'' (?p l)"
    using Tpos e0 by (simp add: position_at_def Let_def settings_def)
  moreover have "position_at r l' =
      startLocation r + distance r * easingPattern ''easeInOutCubic'' (?p l')"
    using Tpos e0 em by (simp add: position_at_def Let_def settings_def)
  ultimately show ?thesis by simp
qed

lemma position_at_cong:
  "startLocation r' = startLocation r \<Longrightarrow> distance r' = distance r \<Longrightarrow>
   timeToAnimate r' = timeToAnimate r \<Longrightarrow> position_at r' l = position_at r l"
  by (simp add: position_at_def)

text \<open>
  What the ticks of a run keep: the start, the distance and the duration; and from the
  first tick on, the position is the one for the elapsed time, and its floor is the
  latest scroll request.
\<close>

lemma ticks_invariant:
  "startLocation (fst (ticks view n s)) = startLocation (fst s) \<and>
   distance (fst (ticks view n s)) = distance (fst s) \<and>
   timeToAnimate (fst (ticks view n s)) = timeToAnimate (fst s) \<and>
   (timeLapsed (fst s) = 0 \<longrightarrow> 0 \<le> timeLapsed (fst (ticks view n s))) \<and>
   (timeLapsed (fst s) = 0 \<and> 0 < timeLapsed (fst (ticks view n s)) \<longrightarrow>
      position (fst (ticks view n s)) = position_at (fst s) (timeLapsed (fst (ticks view n s))) \<and>
      scrollLog (snd (ticks view n s)) \<noteq> [] \<and>
      hd (scrollLog (snd (ticks view n s))) = \<lfloor>position (fst (ticks view n s))\<rfloor>)"
proof (induction n)
  case 0
  show ?case by auto
next
  case (Suc n)
  obtain r b where rb: "ticks view n s = (r, b)" by (cases "ticks view n s")
  show ?case
  proof (cases "tick view (r, b) = (r, b)")
    case True
    with Suc rb show ?thesis by simp
  next
    case False
    then have t: "tick view (r, b) = loopAnimateScroll view (r, b)"
      by (simp add: tick_def split: option.splits if_splits)
    have c: "position_at r (timeLapsed r + 16) = position_at (fst s) (timeLapsed r + 16)"
      using Suc rb by (intro position_at_cong) simp_all
    show ?thesis
      using Suc rb c by (simp add: t loop_run loop_scrollLog)
  qed
qed

lemma tick_lapsed:
  "timeLapsed (fst (tick view s)) = timeLapsed (fst s) \<or>
   timeLapsed (fst (tick view s)) = timeLapsed (fst s) + 16"
  by (cases s) (simp add: tick_def loop_run split: option.splits)

text \<open>
  C4, as the code has it. In a run downward (distance above 0) the position applied by a
  tick, the floor of the computed position, is never smaller than the one applied by the
  tick before: the applied positions are non-decreasing from tick to tick, and every one of
  them is the latest request made to the window.
\<close>

theorem downward_positions_nondecreasing:
  assumes "0 < distance (fst (scrollTo view dest cb b))"
  shows "hd (scrollLog (snd (ticks view (Suc n) (scrollTo view dest cb b)))) =
           \<lfloor>position (fst (ticks view (Suc n) (scrollTo view dest cb b)))\<rfloor> \<and>
         \<lfloor>position (fst (ticks view (Suc n) (scrollTo view dest cb b)))\<rfloor>
           \<le> \<lfloor>position (fst (ticks view (Suc (Suc n)) (scrollTo view dest cb b)))\<rfloor>"
proof -
  define s0 where "s0 = scrollTo view dest cb b"
  have z: "timeLapsed (fst s0) = 0" and T: "timeToAnimate (fst s0) = distance (fst s0) / 4"
    and h: "animationInterval (fst s0) = Some (nextTimer b)"
      "nextTimer b \<in> set (intervals (snd s0))"
    by (simp_all add: s0_def scrollTo_fields)
  have d: "0 < distance (fst s0)" using assms by (simp add: s0_def)
  have first: "timeLapsed (fst (ticks view (Suc 0) s0)) = 16"
    using h z by (cases s0) (simp add: tick_def loop_run)
  have grow: "timeLapsed (fst (ticks view k s0)) \<le> timeLapsed (fst (ticks view (Suc k) s0))"
    for k
    using tick_lapsed [of view "ticks view k s0"] by auto
  have pos: "0 < timeLapsed (fst (ticks view (Suc k) s0))" for k
  proof (induction k)
    case 0
    show ?case using first by simp
  next
    case (Suc k)
    then show ?case using grow [of "Suc k"] by linarith
  qed
  have p: "position (fst (ticks view (Suc k) s0)) =
      position_at (fst s0) (timeLapsed (fst (ticks view (Suc k) s0)))"
    and l: "hd (scrollLog (snd (ticks view (Suc k) s0))) =
      \<lfloor>position (fst (ticks view (Suc k) s0))\<rfloor>" for k
    using ticks_invariant [of view "Suc k" s0] z pos [of k] by blast+
  have "position_at (fst s0) (timeLapsed (fst (ticks view (Suc n) s0)))
        \<le> position_at (fst s0) (timeLapsed (fst (ticks view (Suc (Suc n)) s0)))"
    using d T pos [of n] grow [of "Suc n"] by (intro position_at_mono) simp_all
  then have "position (fst (ticks view (Suc n) s0))
      \<le> position (fst (ticks view (Suc (Suc n)) s0))"
    by (simp only: p)
  then show ?thesis
    unfolding s0_def [symmetric] using l [of n] by (simp only: floor_mono simp_thms)
qed

theorem downward_positions_nondecreasing_witness:
  "0 < distance (fst long_start) \<and>
   hd (scrollLog (snd (ticks demo_view (Suc 3) long_start))) =
     \<lfloor>position (fst (ticks demo_view (Suc 3) long_start))\<rfloor> \<and>
   \<lfloor>position (fst (ticks demo_view (Suc 3) long_start))\<rfloor>
     \<le> \<lfloor>position (fst (ticks demo_view (Suc (Suc 3)) long_start))\<rfloor>"
proof -
  have d: "0 < distance (fst long_start)" by (simp add: long_start_eq)
  from downward_positions_nondecreasing [OF d [unfolded long_start_def], where n = 3] d
  show ?thesis
    unfolding long_start_def [symmetric] by simp
qed

text \<open>
  C4 as stated fails. In the run of 8000 pixels from the top of the page, the first and
  the second tick both apply position 0 (the computed positions are 256/15625 and
  2048/15625), and the run has not ended: the timer is still set after the second tick.
\<close>

theorem downward_positions_counterexample:
  "0 < distance (fst long_start) \<and>
   animationInterval (fst long_start) = Some 1 \<and>
   1 \<in> set (intervals (snd (ticks demo_view (Suc (Suc 0)) long_start))) \<and>
   scrollLog (snd (ticks demo_view (Suc (Suc 0)) long_start)) = [0, 0, 0] \<and>
   \<not> \<lfloor>position (fst (ticks demo_view (Suc 0) long_start))\<rfloor>
       < \<lfloor>position (fst (ticks demo_view (Suc (Suc 0)) long_start))\<rfloor>"
proof -
  have f: "\<lfloor>256 / 15625 :: real\<rfloor> = 0" "\<lfloor>2048 / 15625 :: real\<rfloor> = 0"
    by (simp_all add: floor_eq_iff)
  note t1 = long_ticks1 [unfolded long_loop1]
  note t2 = long_ticks2 [unfolded long_loop2]
  show ?thesis
    unfolding t1 t2 by (simp add: long_start_eq f demo_page_def)
qed

section \<open>The upward run\<close>

lemma up_start_eq: "up_start = up_state 0 0 0 0 1000 []"
proof -
  have "fst up_start = fst (up_state 0 0 0 0 1000 [])"
    by (simp add: up_start_def up_state_def scrollTo_def Let_def settings_def demo_endLocation
        demo_docHeight js_or_def setInterval_def getHeight_def)
      (simp add: demo_page_def demo_target_def)
  moreover have "snd up_start = snd (up_state 0 0 0 0 1000 [])"
    by (simp add: up_start_def up_state_def scrollTo_def Let_def setInterval_def demo_page_def)
  ultimately show ?thesis by (simp add: prod_eq_iff)
qed

lemma demo_view_state:
  "demo_view (snd (up_state lapsed pct pos acc y requests)) z =
     max 0 (min (real_of_int z) 9200)"
  by (simp add: up_state_def demo_view_def getDocumentHeight_def demo_page_def)

text \<open>One tick of the upward run that does not meet the stop condition.\<close>

lemma up_tick:
  assumes "0 \<le> lapsed"
    and "pos' = 1000 - 900 * (4 * ((lapsed + 16) / 225) ^ 3)"
    and "y' = max 0 (min (real_of_int \<lfloor>pos'\<rfloor>) 9200)"
    and "pos' \<noteq> 100" and "y' \<noteq> 100" and "y' < 9200" and "0 \<le> pos'"
  shows "tick demo_view (up_state lapsed pct pos acc y requests) =
           up_state (lapsed + 16) (- ((lapsed + 16) / 225)) pos'
             (4 * ((lapsed + 16) / 225) ^ 3) y' (\<lfloor>pos'\<rfloor> # requests)"
proof -
  let ?s = "up_state lapsed pct pos acc y requests"
  have t: "tick demo_view ?s = loopAnimateScroll demo_view ?s"
    by (simp add: tick_def up_state_def demo_page_def)
  have neg: "(lapsed + 16) / 225 > 0" using assms(1) by simp
  have cube: "0 < ((lapsed + 16) / 225) ^ 3" using neg by simp
  have e: "easingPattern ''easeInOutCubic'' (- ((lapsed + 16) / 225)) = - (4 * ((lapsed + 16) / 225) ^ 3)"
    using neg cube by (simp add: easingPattern_def js_or_def power3_eq_cube)
  have p: "position_at (fst ?s) (lapsed + 16) = pos'"
    using neg cube e by (simp add: position_at_def up_state_def settings_def Let_def assms(2))
  have v: "demo_view (snd ?s) \<lfloor>pos'\<rfloor> = y'"
    by (simp only: demo_view_state assms(3))
  have fields: "timeLapsed (fst ?s) = lapsed" "endLocation (fst ?s) = 100"
      "documentHeight (fst ?s) = 10000" "innerHeight (snd ?s) = 800"
      "timeToAnimate (fst ?s) = - 225"
    by (simp_all add: up_state_def demo_page_def)
  have go: "\<not> (position_at (fst ?s) (timeLapsed (fst ?s) + 16) = endLocation (fst ?s) \<or>
         demo_view (snd ?s) \<lfloor>position_at (fst ?s) (timeLapsed (fst ?s) + 16)\<rfloor> = endLocation (fst ?s) \<or>
         innerHeight (snd ?s) + demo_view (snd ?s) \<lfloor>position_at (fst ?s) (timeLapsed (fst ?s) + 16)\<rfloor>
           \<ge> documentHeight (fst ?s) \<or>
         position_at (fst ?s) (timeLapsed (fst ?s) + 16) < 0)"
    unfolding fields p v using assms(4-7) by simp
  have b: "snd (loopAnimateScroll demo_view ?s) = root_scrollTo demo_view \<lfloor>pos'\<rfloor> (snd ?s)"
    using loop_continues [where view = demo_view and r = "fst ?s" and b = "snd ?s", OF go]
    by (simp add: fields p)
  have b': "root_scrollTo demo_view \<lfloor>pos'\<rfloor> (snd ?s) =
      snd (up_state (lapsed + 16) (- ((lapsed + 16) / 225)) pos'
             (4 * ((lapsed + 16) / 225) ^ 3) y' (\<lfloor>pos'\<rfloor> # requests))"
    unfolding root_scrollTo_def v by (simp add: up_state_def demo_page_def)
  have a: "fst (loopAnimateScroll demo_view ?s) =
      fst (up_state (lapsed + 16) (- ((lapsed + 16) / 225)) pos'
             (4 * ((lapsed + 16) / 225) ^ 3) y' (\<lfloor>pos'\<rfloor> # requests))"
    using loop_run [of demo_view "fst ?s" "snd ?s"] neg cube
    by (simp add: fields p e settings_def) (simp add: up_state_def)
  show ?thesis
    unfolding t using a b b' by (simp add: prod_eq_iff)
qed

lemma up_step1:
  "tick demo_view (up_state 0 pct pos acc y requests) =
     up_state 16 (- (16 / 225)) (50559464 / 50625) (16384 / 11390625) 998 (998 # requests)"
  using up_tick [where lapsed = 0 and pos' = "50559464 / 50625" and y' = 998 and pct = pct and pos = pos
      and acc = acc and y = y and requests = requests]
  by (simp add: power3_eq_cube)

lemma up_step2:
  "tick demo_view (up_state 16 pct pos acc y requests) =
     up_state 32 (- (32 / 225)) (50100712 / 50625) (131072 / 11390625) 989 (989 # requests)"
  using up_tick [where lapsed = 16 and pos' = "50100712 / 50625" and y' = 989 and pct = pct and pos = pos
      and acc = acc and y = y and requests = requests]
  by (simp add: power3_eq_cube)

lemma up_step3:
  "tick demo_view (up_state 32 pct pos acc y requests) =
     up_state 48 (- (16 / 75)) (1809464 / 1875) (16384 / 421875) 965 (965 # requests)"
  using up_tick [where lapsed = 32 and pos' = "1809464 / 1875" and y' = 965 and pct = pct and pos = pos
      and acc = acc and y = y and requests = requests]
  by (simp add: power3_eq_cube)

lemma up_step4:
  "tick demo_view (up_state 48 pct pos acc y requests) =
     up_state 64 (- (64 / 225)) (46430696 / 50625) (1048576 / 11390625) 917 (917 # requests)"
  using up_tick [where lapsed = 48 and pos' = "46430696 / 50625" and y' = 917 and pct = pct and pos = pos
      and acc = acc and y = y and requests = requests]
  by (simp add: power3_eq_cube)

lemma up_step5:
  "tick demo_view (up_state 64 pct pos acc y requests) =
     up_state 80 (- (16 / 45)) (339464 / 405) (16384 / 91125) 838 (838 # requests)"
  using up_tick [where lapsed = 64 and pos' = "339464 / 405" and y' = 838 and pct = pct and pos = pos
      and acc = acc and y = y and requests = requests]
  by (simp add: power3_eq_cube)

lemma up_step6:
  "tick demo_view (up_state 80 pct pos acc y requests) =
     up_state 96 (- (32 / 75)) (1350712 / 1875) (131072 / 421875) 720 (720 # requests)"
  using up_tick [where lapsed = 80 and pos' = "1350712 / 1875" and y' = 720 and pct = pct and pos = pos
      and acc = acc and y = y and requests = requests]
  by (simp add: power3_eq_cube)

lemma up_step7:
  "tick demo_view (up_state 96 pct pos acc y requests) =
     up_state 112 (- (112 / 225)) (28146152 / 50625) (5619712 / 11390625) 555 (555 # requests)"
  using up_tick [where lapsed = 96 and pos' = "28146152 / 50625" and y' = 555 and pct = pct and pos = pos
      and acc = acc and y = y and requests = requests]
  by (simp add: power3_eq_cube)

lemma up_step8:
  "tick demo_view (up_state 112 pct pos acc y requests) =
     up_state 128 (- (128 / 225)) (17070568 / 50625) (8388608 / 11390625) 337 (337 # requests)"
  using up_tick [where lapsed = 112 and pos' = "17070568 / 50625" and y' = 337 and pct = pct and pos = pos
      and acc = acc and y = y and requests = requests]
  by (simp add: power3_eq_cube)

lemma up_step9:
  "tick demo_view (up_state 128 pct pos acc y requests) =
     up_state 144 (- (16 / 25)) (35176 / 625) (16384 / 15625) 56 (56 # requests)"
  using up_tick [where lapsed = 128 and pos' = "35176 / 625" and y' = 56 and pct = pct and pos = pos
      and acc = acc and y = y and requests = requests]
  by (simp add: power3_eq_cube)

lemma up_nine_ticks:
  "ticks demo_view 9 up_start =
     up_state 144 (- (16 / 25)) (35176 / 625) (16384 / 15625) 56
       [56, 337, 555, 720, 838, 917, 965, 989, 998]"
  by (simp add: eval_nat_numeral up_start_eq up_step1 up_step2 up_step3 up_step4 up_step5
      up_step6 up_step7 up_step8 up_step9)

lemma loop_pageYOffset:
  "pageYOffset (snd (loopAnimateScroll view (r, b))) =
     view b \<lfloor>position_at r (timeLapsed r + 16)\<rfloor>"
  by (simp add: loop_browser stopAnimateScroll_def root_scrollTo_def clearInterval_def
      focus_def invoke_def Let_def split: option.splits callback.splits)

lemma up_tenth_tick:
  "position (fst (ticks demo_view 10 up_start)) = - (119288 / 405) \<and>
   1 \<notin> set (intervals (snd (ticks demo_view 10 up_start))) \<and>
   pageYOffset (snd (ticks demo_view 10 up_start)) = 0"
proof -
  let ?s = "up_state 144 (- (16 / 25)) (35176 / 625) (16384 / 15625) 56
       [56, 337, 555, 720, 838, 917, 965, 989, 998]"
  have ten: "ticks demo_view 10 up_start = tick demo_view ?s"
    using up_nine_ticks ticks.simps(2) [of demo_view 9 up_start] by simp
  have t: "tick demo_view ?s = loopAnimateScroll demo_view (fst ?s, snd ?s)"
    by (simp add: tick_def up_state_def demo_page_def)
  have h: "animationInterval (fst ?s) = Some 1" by (simp add: up_state_def)
  have p: "position_at (fst ?s) (timeLapsed (fst ?s) + 16) = - (119288 / 405)"
    by (simp add: position_at_def up_state_def settings_def Let_def easingPattern_def js_or_def)
  have f: "\<lfloor>- (119288 / 405) :: real\<rfloor> = - 295" by (simp add: floor_eq_iff)
  have st: "1 \<notin> set (intervals (snd (loopAnimateScroll demo_view (fst ?s, snd ?s))))"
    using loop_stops [where view = demo_view and b = "snd ?s", OF h] p by simp
  have y: "pageYOffset (snd (loopAnimateScroll demo_view (fst ?s, snd ?s))) = 0"
    unfolding loop_pageYOffset p f by (simp add: demo_view_state)
  have q: "position (fst (loopAnimateScroll demo_view (fst ?s, snd ?s))) = - (119288 / 405)"
    unfolding loop_run using p by simp
  show ?thesis
    unfolding ten t using st y q by simp
qed

text \<open>
  C2. The code at a run upward, from offset 1000 to the end location 100: the distance is
  -900 and the duration is -225 ms, where the claim has 225 ms and no negative duration.
  With it the percentage of every tick is negative and is never cut to 1: the ninth tick
  has passed the end location (position 56.28, offset 56) with the timer still set, and
  the run ends only with the tenth tick, whose position is negative, with the page at
  offset 0.
\<close>

theorem scrollTo_upward_duration:
  "distance (fst up_start) = - 900 \<and>
   timeToAnimate (fst up_start) = - 225 \<and>
   timeToAnimate (fst up_start) \<noteq>
     \<bar>distance (fst up_start)\<bar> / real_of_int (speed settings) * 1000 \<and>
   timeToAnimate (fst up_start) < 0 \<and>
   endLocation (fst up_start) = 100 \<and>
   percentage (fst (ticks demo_view 9 up_start)) = - (16 / 25) \<and>
   position (fst (ticks demo_view 9 up_start)) = 35176 / 625 \<and>
   pageYOffset (snd (ticks demo_view 9 up_start)) = 56 \<and>
   1 \<in> set (intervals (snd (ticks demo_view 9 up_start))) \<and>
   position (fst (ticks demo_view 10 up_start)) < 0 \<and>
   1 \<notin> set (intervals (snd (ticks demo_view 10 up_start))) \<and>
   pageYOffset (snd (ticks demo_view 10 up_start)) = 0"
  unfolding up_nine_ticks using up_tenth_tick
  by (simp add: up_start_eq up_state_def settings_def demo_page_def)

end
